theory Spec2Isabelle
  imports Complex_Main "HOL-Library.Multiset"
begin

section \<open>Python values shared by both modules\<close>

text \<open>
  Exceptions of the source are values: every raise is a branch that returns \<open>Inl\<close>.
  \<open>Fatal\<close> is \<open>msgs.error\<close> (the run is aborted), \<open>SystemExit\<close> is \<open>sys.exit()\<close>.
\<close>

datatype error =
    IndexError
  | KeyError string
  | NameError string
  | ValueError
  | Fatal string
  | SystemExit

text \<open>The messages handed to the logger: \<open>msgs.bug\<close>, \<open>msgs.info\<close>, \<open>msgs.warn\<close>.\<close>

datatype msg = Bug string | Info string | Warn string

text \<open>An early \<open>return\<close> inside a loop, against the loop running to its end.\<close>

datatype 'a flow = Return 'a | Next 'a

text \<open>Decimal rendering of a non-negative integer, as \<open>{:d}\<close> prints it.\<close>

function dec :: "nat \<Rightarrow> string" where
  "dec n = (if n < 10 then [''0123456789'' ! n]
            else dec (n div 10) @ [''0123456789'' ! (n mod 10)])"
  by pat_completeness auto
termination
  by (relation "measure id") auto

declare dec.simps [simp del]

text \<open>\<open>'{:02d}'.format(n)\<close>: at least two digits, padded with zeros on the left.\<close>

definition fmt02 :: "nat \<Rightarrow> string" where
  "fmt02 n = replicate (2 - length (dec n)) (CHR ''0'') @ dec n"

text \<open>\<open>s.join(parts)\<close>.\<close>

fun join :: "string \<Rightarrow> string list \<Rightarrow> string" where
  "join s [] = []"
| "join s [p] = p"
| "join s (p # q # ps) = p @ s @ join s (q # ps)"

section \<open>armbase: the science exposures and their master frames\<close>

text \<open>
  Modelled from the spec: the class \<open>arsciexp.ScienceExposure\<close> is not among the sources.
  The spec gives it, per calibration type, the list of raw-frame indices that would be
  combined (the fields \<open>_idx_arcs\<close>, \<open>_idx_bias\<close>, \<open>_idx_rn\<close>, \<open>_idx_trace\<close>,
  \<open>_idx_flat\<close>, \<open>_idx_std\<close> that \<open>UpdateMasters\<close> reads, and \<open>_idx_sci\<close> that
  \<open>SetupScience\<close> reads), and an optional master-frame payload per type and detector.
  The payload \<open>'f\<close> is opaque.
\<close>

record 'f ScienceExposure =
  idx_sci :: "nat list"
  idx_arcs :: "nat list"
  idx_bias :: "nat list"
  idx_rn :: "nat list"
  idx_trace :: "nat list"
  idx_flat :: "nat list"
  idx_std :: "nat list"
  ms :: "string \<times> nat \<Rightarrow> 'f option"

text \<open>
  Modelled from the spec: \<open>GetMasterFrame(ftype, det, mkcopy)\<close> reads the slot of a type and
  detector, \<open>None\<close> when no master frame is there yet; \<open>SetMasterFrame(frame, ftype, det)\<close>
  stores a copy of the frame in that slot. A copy of a payload is the payload.
\<close>

definition GetMasterFrame :: "'f ScienceExposure \<Rightarrow> string \<Rightarrow> nat \<Rightarrow> 'f option" where
  "GetMasterFrame e ftype det = ms e (ftype, det)"

definition SetMasterFrame ::
  "'f option \<Rightarrow> string \<Rightarrow> nat \<Rightarrow> 'f ScienceExposure \<Rightarrow> 'f ScienceExposure" where
  "SetMasterFrame frame ftype det e = e\<lparr>ms := (ms e)((ftype, det) := frame)\<rparr>"

text \<open>
  \<open>np.array_equal\<close> on two one-dimensional index arrays: the shapes agree and every
  position holds the same element.
\<close>

definition array_equal :: "nat list \<Rightarrow> nat list \<Rightarrow> bool" where
  "array_equal a1 a2 = (length a1 = length a2 \<and> list_all2 (=) a1 a2)"

text \<open>\<open>sciexp[sc]\<close> for a non-negative index.\<close>

definition sciexp_at :: "'a list \<Rightarrow> nat \<Rightarrow> error + 'a" where
  "sciexp_at xs i = (if i < length xs then Inr (xs ! i) else Inl IndexError)"

subsection \<open>UpdateMasters\<close>

definition bug_type :: "string \<Rightarrow> string" where
  "bug_type ftype = ''I could not update frame of type: '' @ ftype"

definition bug_subtype :: "string \<Rightarrow> string \<Rightarrow> string" where
  "bug_subtype ftype chktype =
     ''I could not update frame of type '' @ ftype @ '' and subtype '' @ chktype"

definition info_update :: "string \<Rightarrow> nat \<Rightarrow> nat \<Rightarrow> string" where
  "info_update t i numsci =
     ''Updating master '' @ t @ '' frame for science target '' @ dec i @ ''/'' @ dec numsci"

text \<open>The log written so far and the exposures as they stand.\<close>

type_synonym 'f um_state = "msg list \<times> 'f ScienceExposure list"

text \<open>Lines 174-178 and 188-192: the requirement list of exposure \<open>i\<close> for a flat subtype.\<close>

definition flat_chkfarr :: "string \<Rightarrow> 'f ScienceExposure \<Rightarrow> nat list option" where
  "flat_chkfarr chktype e =
     (if chktype = ''trace'' then Some (idx_trace e)
      else if chktype = ''pixelflat'' then Some (idx_flat e)
      else None)"

text \<open>Lines 199-205: the requirement list of exposure \<open>i\<close> for a plain type.\<close>

definition plain_chkfarr :: "string \<Rightarrow> 'f ScienceExposure \<Rightarrow> nat list option" where
  "plain_chkfarr ftype e =
     (if ftype = ''arc'' then Some (idx_arcs e)
      else if ftype = ''bias'' then Some (idx_bias e)
      else if ftype = ''standard'' then Some (idx_std e)
      else None)"

text \<open>
  The two loops over the flats (lines 172-181 and 186-195) have the same body: the frame
  copied is the \<open>origtype\<close> master of exposure \<open>sc\<close>, the slot written is \<open>chktype\<close>.
  The first loop runs with \<open>origtype = chktype\<close>.
\<close>

fun flat_loop ::
  "nat \<Rightarrow> nat \<Rightarrow> string \<Rightarrow> string \<Rightarrow> string \<Rightarrow> nat list \<Rightarrow> nat list \<Rightarrow> 'f um_state
     \<Rightarrow> 'f um_state flow" where
  "flat_loop sc det ftype origtype chktype chkarr [] st = Next st"
| "flat_loop sc det ftype origtype chktype chkarr (i # rest) (lg, sciexp) =
     (case flat_chkfarr chktype (sciexp ! i) of
        None \<Rightarrow> Return (lg @ [Bug (bug_subtype ftype chktype)], sciexp)
      | Some chkfarr \<Rightarrow>
          if array_equal chkarr chkfarr \<and> GetMasterFrame (sciexp ! i) chktype det = None
          then flat_loop sc det ftype origtype chktype chkarr rest
                 (lg @ [Info (info_update chktype (i + 1) (length sciexp))],
                  sciexp[i := SetMasterFrame (GetMasterFrame (sciexp ! sc) origtype det)
                                chktype det (sciexp ! i)])
          else flat_loop sc det ftype origtype chktype chkarr rest (lg, sciexp))"

text \<open>The loop over the plain types (lines 197-208).\<close>

fun plain_loop ::
  "nat \<Rightarrow> nat \<Rightarrow> string \<Rightarrow> nat list \<Rightarrow> nat list \<Rightarrow> 'f um_state \<Rightarrow> 'f um_state flow" where
  "plain_loop sc det ftype chkarr [] st = Next st"
| "plain_loop sc det ftype chkarr (i # rest) (lg, sciexp) =
     (case plain_chkfarr ftype (sciexp ! i) of
        None \<Rightarrow> Return (lg @ [Bug (bug_type ftype)], sciexp)
      | Some chkfarr \<Rightarrow>
          if array_equal chkarr chkfarr \<and> GetMasterFrame (sciexp ! i) ftype det = None
          then plain_loop sc det ftype chkarr rest
                 (lg @ [Info (info_update ftype (i + 1) (length sciexp))],
                  sciexp[i := SetMasterFrame (GetMasterFrame (sciexp ! sc) ftype det)
                                ftype det (sciexp ! i)])
          else plain_loop sc det ftype chkarr rest (lg, sciexp))"

text \<open>Lines 184-185: the other flat subtype.\<close>

definition other_flat :: "string \<Rightarrow> string" where
  "other_flat chktype =
     (if chktype = ''trace'' then ''pixelflat''
      else if chktype = ''pixelflat'' then ''trace''
      else chktype)"

text \<open>Lines 170-209, once \<open>chkarr\<close> is chosen.\<close>

definition UpdateMasters_loops ::
  "'f ScienceExposure list \<Rightarrow> nat \<Rightarrow> nat \<Rightarrow> string \<Rightarrow> string \<Rightarrow> nat list \<Rightarrow> 'f um_state" where
  "UpdateMasters_loops sciexp sc det ftype chktype chkarr =
     (let numsci = length sciexp in
      if ftype = ''flat'' then
        (case flat_loop sc det ftype chktype chktype chkarr [sc + 1 ..< numsci] ([], sciexp) of
           Return st \<Rightarrow> st
         | Next st \<Rightarrow>
             (let origtype = chktype; chktype2 = other_flat chktype in
              case flat_loop sc det ftype origtype chktype2 chkarr [sc ..< numsci] st of
                Return st2 \<Rightarrow> st2
              | Next st2 \<Rightarrow> st2))
      else
        (case plain_loop sc det ftype chkarr [sc + 1 ..< numsci] ([], sciexp) of
           Return st \<Rightarrow> st
         | Next st \<Rightarrow> st))"

text \<open>
  \<open>UpdateMasters(sciexp, sc, det, ftype, chktype)\<close>. The parameters are typed as the
  docstring types them: \<open>sc\<close> an index into \<open>sciexp\<close>, \<open>ftype\<close> and \<open>chktype\<close> strings
  (for a plain type \<open>chktype\<close> is never read). The exposures are mutated in place in the
  source; here the call returns the log it wrote and the exposures after it.
  \<open>sciexp[sc]\<close> is evaluated only in the branches that read a requirement list.
\<close>

definition UpdateMasters ::
  "'f ScienceExposure list \<Rightarrow> nat \<Rightarrow> nat \<Rightarrow> string \<Rightarrow> string \<Rightarrow> error + 'f um_state" where
  "UpdateMasters sciexp sc det ftype chktype =
     (if ftype = ''arc'' then
        (case sciexp_at sciexp sc of Inl e \<Rightarrow> Inl e
         | Inr x \<Rightarrow> Inr (UpdateMasters_loops sciexp sc det ftype chktype (idx_arcs x)))
      else if ftype = ''bias'' then
        (case sciexp_at sciexp sc of Inl e \<Rightarrow> Inl e
         | Inr x \<Rightarrow> Inr (UpdateMasters_loops sciexp sc det ftype chktype (idx_bias x)))
      else if ftype = ''readnoise'' then
        (case sciexp_at sciexp sc of Inl e \<Rightarrow> Inl e
         | Inr x \<Rightarrow> Inr (UpdateMasters_loops sciexp sc det ftype chktype (idx_rn x)))
      else if ftype = ''flat'' then
        (if chktype = ''trace'' then
           (case sciexp_at sciexp sc of Inl e \<Rightarrow> Inl e
            | Inr x \<Rightarrow> Inr (UpdateMasters_loops sciexp sc det ftype chktype (idx_trace x)))
         else if chktype = ''pixelflat'' then
           (case sciexp_at sciexp sc of Inl e \<Rightarrow> Inl e
            | Inr x \<Rightarrow> Inr (UpdateMasters_loops sciexp sc det ftype chktype (idx_flat x)))
         else Inr ([Bug (bug_subtype ftype chktype)], sciexp))
      else if ftype = ''standard'' then
        (case sciexp_at sciexp sc of Inl e \<Rightarrow> Inl e
         | Inr x \<Rightarrow> Inr (UpdateMasters_loops sciexp sc det ftype chktype (idx_std x)))
      else Inr ([Bug (bug_type ftype)], sciexp))"

text \<open>An exposure with the given requirement lists and no master frame, for the examples.\<close>

definition exposure ::
  "nat list \<Rightarrow> nat list \<Rightarrow> nat list \<Rightarrow> nat list \<Rightarrow> nat list \<Rightarrow> nat list \<Rightarrow> nat list
     \<Rightarrow> nat ScienceExposure" where
  "exposure sci arcs bias rn trace flat std =
     \<lparr>idx_sci = sci, idx_arcs = arcs, idx_bias = bias, idx_rn = rn, idx_trace = trace,
      idx_flat = flat, idx_std = std, ms = (\<lambda>k. None)\<rparr>"

text \<open>The state a loop leaves behind, however it ended.\<close>

fun st_of :: "'a flow \<Rightarrow> 'a" where
  "st_of (Return s) = s" | "st_of (Next s) = s"

text \<open>
  No overwrite: the exposures are the same in number, and every master-frame slot that
  held a frame in \<open>se\<close> holds the same frame in \<open>se'\<close>.
\<close>

definition keeps :: "'f ScienceExposure list \<Rightarrow> 'f ScienceExposure list \<Rightarrow> bool" where
  "keeps se se' = (length se' = length se \<and>
     (\<forall>j t d f. j < length se \<longrightarrow> GetMasterFrame (se ! j) t d = Some f \<longrightarrow> GetMasterFrame (se' ! j) t d = Some f))"

text \<open>
  The requirement list \<open>UpdateMasters\<close> compares for a type and subtype, and the slot a
  same-type propagation writes.
\<close>

definition req_list :: "string \<Rightarrow> string \<Rightarrow> 'f ScienceExposure \<Rightarrow> nat list option" where
  "req_list ftype chktype e =
     (if ftype = ''flat'' then flat_chkfarr chktype e else plain_chkfarr ftype e)"

definition slot_of :: "string \<Rightarrow> string \<Rightarrow> string" where
  "slot_of ftype chktype = (if ftype = ''flat'' then chktype else ftype)"

text \<open>An exposure whose master frame of a type and detector is already there.\<close>

definition with_master :: "string \<Rightarrow> nat \<Rightarrow> nat \<Rightarrow> nat ScienceExposure \<Rightarrow> nat ScienceExposure" where
  "with_master ftype det f e = SetMasterFrame (Some f) ftype det e"


section \<open>arextract: boxcar extraction\<close>

text \<open>
  A NumPy float is a real number, one of the two infinities, or NaN. Finite arithmetic is
  exact here: rounding, overflow to infinity and the sign of zero are not modelled. What
  is modelled is how the special values arise and propagate: \<open>0/0\<close>, \<open>inf - inf\<close> and
  \<open>0 * inf\<close> are NaN, \<open>x/0\<close> is an infinity for \<open>x \<noteq> 0\<close>, NaN is absorbing, and every
  comparison with NaN is false. NumPy raises nothing on any of these.
\<close>

datatype npfloat = Fin real | PInf | NInf | NaN

fun fneg :: "npfloat \<Rightarrow> npfloat" where
  "fneg (Fin a) = Fin (- a)"
| "fneg PInf = NInf"
| "fneg NInf = PInf"
| "fneg NaN = NaN"

fun fadd :: "npfloat \<Rightarrow> npfloat \<Rightarrow> npfloat" where
  "fadd (Fin a) (Fin b) = Fin (a + b)"
| "fadd (Fin a) PInf = PInf"
| "fadd (Fin a) NInf = NInf"
| "fadd PInf (Fin b) = PInf"
| "fadd PInf PInf = PInf"
| "fadd PInf NInf = NaN"
| "fadd NInf (Fin b) = NInf"
| "fadd NInf PInf = NaN"
| "fadd NInf NInf = NInf"
| "fadd NaN y = NaN"
| "fadd x NaN = NaN"

definition fsub :: "npfloat \<Rightarrow> npfloat \<Rightarrow> npfloat" where
  "fsub x y = fadd x (fneg y)"

text \<open>The infinity of a sign: \<open>True\<close> is positive.\<close>

definition inf_of :: "bool \<Rightarrow> npfloat" where
  "inf_of pos = (if pos then PInf else NInf)"

fun fmul :: "npfloat \<Rightarrow> npfloat \<Rightarrow> npfloat" where
  "fmul (Fin a) (Fin b) = Fin (a * b)"
| "fmul (Fin a) PInf = (if a = 0 then NaN else inf_of (0 < a))"
| "fmul (Fin a) NInf = (if a = 0 then NaN else inf_of (a < 0))"
| "fmul PInf (Fin b) = (if b = 0 then NaN else inf_of (0 < b))"
| "fmul NInf (Fin b) = (if b = 0 then NaN else inf_of (b < 0))"
| "fmul PInf PInf = PInf"
| "fmul PInf NInf = NInf"
| "fmul NInf PInf = NInf"
| "fmul NInf NInf = PInf"
| "fmul NaN y = NaN"
| "fmul x NaN = NaN"

fun fdiv :: "npfloat \<Rightarrow> npfloat \<Rightarrow> npfloat" where
  "fdiv (Fin a) (Fin b) =
     (if b = 0 then (if a = 0 then NaN else inf_of (0 < a)) else Fin (a / b))"
| "fdiv (Fin a) PInf = Fin 0"
| "fdiv (Fin a) NInf = Fin 0"
| "fdiv PInf (Fin b) = inf_of (0 \<le> b)"
| "fdiv NInf (Fin b) = inf_of (b < 0)"
| "fdiv PInf PInf = NaN"
| "fdiv PInf NInf = NaN"
| "fdiv NInf PInf = NaN"
| "fdiv NInf NInf = NaN"
| "fdiv NaN y = NaN"
| "fdiv x NaN = NaN"

text \<open>\<open>x > y\<close>.\<close>

fun fgt :: "npfloat \<Rightarrow> npfloat \<Rightarrow> bool" where
  "fgt (Fin a) (Fin b) = (b < a)"
| "fgt (Fin a) PInf = False"
| "fgt (Fin a) NInf = True"
| "fgt PInf (Fin b) = True"
| "fgt PInf PInf = False"
| "fgt PInf NInf = True"
| "fgt NInf y = False"
| "fgt NaN y = False"
| "fgt x NaN = False"

fun isnan :: "npfloat \<Rightarrow> bool" where
  "isnan NaN = True"
| "isnan x = False"


text \<open>
  A two-dimensional array is the list of its rows. The element-wise operations pair the
  entries of equally shaped arrays; the frames of one detector all have its shape.
\<close>

type_synonym frame = "npfloat list list"


definition mul2 :: "frame \<Rightarrow> frame \<Rightarrow> frame" where
  "mul2 a b = map2 (map2 fmul) a b"

definition sub2 :: "frame \<Rightarrow> frame \<Rightarrow> frame" where
  "sub2 a b = map2 (map2 fsub) a b"

definition add2 :: "frame \<Rightarrow> frame \<Rightarrow> frame" where
  "add2 a b = map2 (map2 fadd) a b"

text \<open>\<open>np.sum(a, axis=1)\<close>: the sum of every row.\<close>

definition sum_row :: "npfloat list \<Rightarrow> npfloat" where
  "sum_row r = foldr fadd r (Fin 0)"

definition row_sums :: "frame \<Rightarrow> npfloat list" where
  "row_sums a = map sum_row a"

text \<open>\<open>a[sel] += v\<close> and \<open>a[sel] = 0.\<close> for a boolean selection \<open>sel\<close> of a vector.\<close>

definition add_where :: "bool list \<Rightarrow> int \<Rightarrow> int list \<Rightarrow> int list" where
  "add_where sel v a = map2 (\<lambda>s x. if s then x + v else x) sel a"

definition zero_where :: "bool list \<Rightarrow> npfloat list \<Rightarrow> npfloat list" where
  "zero_where sel a = map2 (\<lambda>s x. if s then Fin 0 else x) sel a"

text \<open>\<open>bgcorr[gdp] = bgframe[gdp]\<close> with \<open>gdp = np.where(tmp > 0)\<close> (lines 76-78).\<close>

definition put_where_pos :: "frame \<Rightarrow> frame \<Rightarrow> frame \<Rightarrow> frame" where
  "put_where_pos tmp src dst =
     map2 (\<lambda>(trow, srow) drow.
             map2 (\<lambda>(t, s) d. if fgt t (Fin 0) then s else d) (zip trow srow) drow)
          (zip tmp src) dst"

text \<open>\<open>np.linspace(0.0, 1.0, n)\<close>.\<close>

definition linspace01 :: "nat \<Rightarrow> npfloat list" where
  "linspace01 n = map (\<lambda>i. Fin (real i / real (n - 1))) [0 ..< n]"

text \<open>Sequencing of calls that may raise.\<close>

definition ebind :: "error + 'a \<Rightarrow> ('a \<Rightarrow> error + 'b) \<Rightarrow> error + 'b" where
  "ebind m f = (case m of Inl e \<Rightarrow> Inl e | Inr x \<Rightarrow> f x)"

text \<open>\<open>xs[i]\<close> for a Python integer: a negative index counts from the end.\<close>

definition py_nth :: "'a list \<Rightarrow> int \<Rightarrow> error + 'a" where
  "py_nth xs i =
     (if 0 \<le> i \<and> i < int (length xs) then Inr (xs ! nat i)
      else if i < 0 \<and> - int (length xs) \<le> i then Inr (xs ! nat (i + int (length xs)))
      else Inl IndexError)"

text \<open>\<open>d[k]\<close> for a dictionary given as its items.\<close>

definition dict_get :: "(string \<times> 'v) list \<Rightarrow> string \<Rightarrow> error + 'v" where
  "dict_get d k = (case map_of d k of None \<Rightarrow> Inl (KeyError k) | Some v \<Rightarrow> Inr v)"

text \<open>Line 21: \<open>mask_flags = dict(bad_pix=2**0, CR=2**1, NAN=2**5)\<close>.\<close>

definition mask_flags :: "(string \<times> int) list" where
  "mask_flags = [(''bad_pix'', 2 ^ 0), (''CR'', 2 ^ 1), (''NAN'', 2 ^ 5)]"

text \<open>
  The \<open>boxcar\<close> dictionary of a \<open>SpecObj\<close> once filled (lines 102-106). The unit attached
  to the wavelengths is left out.
\<close>

record boxcar_out =
  bx_wave :: "npfloat list"
  bx_counts :: "npfloat list"
  bx_var :: "npfloat list"
  bx_sky :: "npfloat list"
  bx_mask :: "int list"

text \<open>
  Modelled from the spec: the class \<open>SpecObj\<close> is not among the sources. An object holds
  the trace it was found on and its boxcar results, absent until \<open>boxcar\<close> fills them;
  \<open>check_trace\<close> tells whether a trace is the object's own.
\<close>

record SpecObj =
  so_trace :: "npfloat list"
  so_boxcar :: "boxcar_out option"

definition check_trace :: "SpecObj \<Rightarrow> npfloat list \<Rightarrow> bool" where
  "check_trace so trc = (so_trace so = trc)"

text \<open>
  \<open>scitrace\<close>: per object \<open>o\<close> the trace \<open>traces[:, o]\<close> and the weight images
  \<open>object[:, :, o]\<close> and \<open>background[:, :, o]\<close>. The last axis of the source's arrays is
  the outer list here.
\<close>

record scitrace =
  st_traces :: "npfloat list list"
  st_object :: "frame list"
  st_background :: "frame list"

text \<open>
  What \<open>boxcar\<close> reads besides its array arguments: \<open>slf._mswave\<close> and \<open>slf._bpix\<close> (one
  frame per detector) and the background fit \<open>arcyutils.func2d_fit_val\<close>, a compiled
  routine that is not among the sources and is taken as a parameter.
\<close>

record slf =
  mswave :: "frame list"
  bpix :: "frame list"

type_synonym fit2d = "npfloat list \<Rightarrow> frame \<Rightarrow> frame \<Rightarrow> nat \<Rightarrow> frame"

text \<open>
  Lines 57-96 for one object: the background frame and the boxcar results before the
  trace check. \<open>mask_flags['NANs']\<close> is looked up only when a summed flux is NaN.
\<close>

definition boxcar_obj ::
  "fit2d \<Rightarrow> slf \<Rightarrow> int \<Rightarrow> frame \<Rightarrow> frame \<Rightarrow> frame \<Rightarrow> frame \<Rightarrow> npfloat list \<Rightarrow> scitrace \<Rightarrow> nat
     \<Rightarrow> error + (boxcar_out \<times> frame \<times> frame)" where
  "boxcar_obj func2d_fit_val s det sciframe varframe skyframe cr_mask bgfit strace ob =
     (let bgfitord = 1 in
      ebind (py_nth (st_background strace) (int ob)) (\<lambda>bgw.
      let bgframe = func2d_fit_val bgfit sciframe (mul2 bgw cr_mask) bgfitord in
      ebind (py_nth (st_object strace) (int ob)) (\<lambda>weight.
      let sumweight = row_sums weight in
      ebind (py_nth (mswave s) (det - 1)) (\<lambda>wv.
      let wvsum = map2 fdiv (row_sums (mul2 wv weight)) sumweight;
          skysum = map2 fdiv (row_sums (mul2 skyframe weight)) sumweight;
          scisum = row_sums (mul2 (sub2 sciframe bgframe) weight);
          varsum = row_sums (mul2 varframe weight);
          tmp = add2 bgw weight;
          boxmask = map (\<lambda>x. 0) wvsum
      in
      ebind (py_nth (bpix s) (det - 1)) (\<lambda>bpx.
      let bp = map (\<lambda>x. fgt x (Fin 0)) (row_sums (mul2 weight bpx)) in
      ebind (dict_get mask_flags ''bad_pix'') (\<lambda>f_bp.
      let boxmask1 = add_where bp f_bp boxmask;
          cr = map (\<lambda>x. fgt x (Fin 0)) (row_sums (mul2 weight cr_mask))
      in
      ebind (dict_get mask_flags ''CR'') (\<lambda>f_cr.
      let boxmask2 = add_where cr f_cr boxmask1;
          NANs = map isnan scisum
      in
      if 0 < length (filter id NANs) then
        ebind (dict_get mask_flags ''NANs'') (\<lambda>f_nan.
        Inr (\<lparr>bx_wave = wvsum, bx_counts = zero_where NANs scisum,
              bx_var = zero_where NANs varsum, bx_sky = zero_where NANs skysum,
              bx_mask = add_where NANs f_nan boxmask2\<rparr>, tmp, bgframe))
      else
        Inr (\<lparr>bx_wave = wvsum, bx_counts = scisum, bx_var = varsum, bx_sky = skysum,
              bx_mask = boxmask2\<rparr>, tmp, bgframe))))))))"

text \<open>
  The loop over the objects (lines 54-106). On an exception the objects filled so far
  stay filled: the error carries them. \<open>msgs.error\<close> after a failed \<open>check_trace\<close> is
  fatal. The informational log lines are left out.
\<close>

fun boxcar_loop ::
  "fit2d \<Rightarrow> slf \<Rightarrow> int \<Rightarrow> frame \<Rightarrow> frame \<Rightarrow> frame \<Rightarrow> frame \<Rightarrow> npfloat list \<Rightarrow> scitrace
     \<Rightarrow> nat list \<Rightarrow> SpecObj list \<times> frame \<Rightarrow> (error \<times> SpecObj list) + (SpecObj list \<times> frame)" where
  "boxcar_loop fit s det sciframe varframe skyframe cr_mask bgfit strace [] st = Inr st"
| "boxcar_loop fit s det sciframe varframe skyframe cr_mask bgfit strace (ob # rest)
     (specobjs, bgcorr) =
     (case boxcar_obj fit s det sciframe varframe skyframe cr_mask bgfit strace ob of
        Inl e \<Rightarrow> Inl (e, specobjs)
      | Inr (res, tmp, bgframe) \<Rightarrow>
          (case py_nth specobjs (int ob) of
             Inl e \<Rightarrow> Inl (e, specobjs)
           | Inr so \<Rightarrow>
               (case py_nth (st_traces strace) (int ob) of
                  Inl e \<Rightarrow> Inl (e, specobjs)
                | Inr trc \<Rightarrow>
                    if check_trace so trc
                    then boxcar_loop fit s det sciframe varframe skyframe cr_mask bgfit strace rest
                           (specobjs[ob := so\<lparr>so_boxcar := Some res\<rparr>],
                            put_where_pos tmp bgframe bgcorr)
                    else Inl (Fatal ''Bad match to specobj in boxcar!'', specobjs))))"

text \<open>
  \<open>boxcar(slf, det, specobjs, sciframe, varframe, skyframe, crmask, scitrace)\<close>: the
  objects after the pass and the background image it returns. \<open>crmask\<close> is an integer
  array; the number of columns is taken from the first row of \<open>sciframe\<close>.
\<close>

definition boxcar ::
  "fit2d \<Rightarrow> slf \<Rightarrow> int \<Rightarrow> SpecObj list \<Rightarrow> frame \<Rightarrow> frame \<Rightarrow> frame \<Rightarrow> int list list \<Rightarrow> scitrace
     \<Rightarrow> (error \<times> SpecObj list) + (SpecObj list \<times> frame)" where
  "boxcar fit s det specobjs sciframe varframe skyframe crmask strace =
     (let nobj = length (st_traces strace);
          cr_mask = map (map (\<lambda>c. fsub (Fin 1) (Fin (real_of_int c)))) crmask;
          bgfit = linspace01 (case sciframe of [] \<Rightarrow> 0 | r # rs \<Rightarrow> length r);
          bgcorr = map (map (\<lambda>x. Fin 0)) cr_mask
      in boxcar_loop fit s det sciframe varframe skyframe cr_mask bgfit strace [0 ..< nobj]
           (specobjs, bgcorr))"

section \<open>armbase: SetupScience\<close>

text \<open>
  What \<open>SetupScience\<close> reads from the settings, from \<open>fitsdict\<close> and from its
  collaborators in \<open>arsort\<close> and \<open>arsciexp\<close>, none of which is among the sources; each is
  a parameter. \<open>spect_index key\<close> is \<open>settings.spect[key]['index']\<close> as \<open>match_science\<close>
  leaves it (one index list per science exposure), \<open>instr_setup_prev i\<close> is
  \<open>arsort.instr_setup(i, 1, fitsdict, prev_setup_dict)\<close> and \<open>instr_setup i det\<close> is the
  call on the dictionary the run builds; what the calls do to those dictionaries stays
  inside them. \<open>nexist\<close> is the number of setup files \<open>get_setup_file\<close> found and
  \<open>setup_file\<close> the name it returns; \<open>group_file\<close> is the name the group file gets.
\<close>

record 'f setup_env =
  calcheck :: bool
  reduce_setup :: "string list option"
  output_sorted :: bool
  ndet :: nat
  nexist :: nat
  filesort_keys :: "string list"
  numsci_sorted :: nat
  spect_index :: "string \<Rightarrow> nat list list option"
  fits_filename :: "string list"
  fits_target :: "string list"
  instr_setup_prev :: "nat \<Rightarrow> string"
  instr_setup :: "nat \<Rightarrow> nat \<Rightarrow> string"
  new_exposure :: "nat \<Rightarrow> 'f ScienceExposure"
  setup_file :: string
  group_file :: string

text \<open>The files and directories the run writes, in order.\<close>

datatype io = SortWrite | MakeDirs | WriteSetup | WriteGroup

text \<open>One group record: the lists by frame type, and \<open>sciobj\<close> and \<open>stdobj\<close>.\<close>

type_synonym group = "string \<Rightarrow> string list option"

record 'f setup_state =
  ss_log :: "msg list"
  ss_io :: "io list"
  ss_sciexp :: "'f ScienceExposure list"
  ss_scii :: "nat list"
  ss_group :: "string \<Rightarrow> group option"

text \<open>\<open>d[k]\<close> for a dictionary given as a map.\<close>

definition map_get :: "(string \<Rightarrow> 'v option) \<Rightarrow> string \<Rightarrow> error + 'v" where
  "map_get d k = (case d k of None \<Rightarrow> Inl (KeyError k) | Some v \<Rightarrow> Inr v)"

text \<open>
  \<open>int(setup)\<close> for a setup identifier: a non-empty string of decimal digits. Any other
  string is a \<open>ValueError\<close> here.
\<close>

definition digit_of :: "char \<Rightarrow> nat option" where
  "digit_of c = map_of (zip ''0123456789'' [0 ..< 10]) c"

fun py_int_acc :: "nat \<Rightarrow> string \<Rightarrow> error + nat" where
  "py_int_acc acc [] = Inr acc"
| "py_int_acc acc (c # cs) =
     (case digit_of c of None \<Rightarrow> Inl ValueError | Some d \<Rightarrow> py_int_acc (10 * acc + d) cs)"

definition py_int :: "string \<Rightarrow> error + nat" where
  "py_int s = (if s = [] then Inl ValueError else py_int_acc 0 s)"

text \<open>Lines 67-76: one exposure per science frame whose setup passes the filter.\<close>

fun science_loop :: "'f setup_env \<Rightarrow> nat list \<Rightarrow> 'f setup_state \<Rightarrow> (error \<times> 'f setup_state) + 'f setup_state" where
  "science_loop env [] st = Inr st"
| "science_loop env (i # rest) st =
     (case reduce_setup env of
        None \<Rightarrow>
          science_loop env rest
            (st\<lparr>ss_sciexp := ss_sciexp st @ [new_exposure env i], ss_scii := ss_scii st @ [i]\<rparr>)
      | Some wanted \<Rightarrow>
          if nexist env = 1 then
            (let setup = instr_setup_prev env i in
             if setup \<in> set wanted
             then science_loop env rest
                    (st\<lparr>ss_sciexp := ss_sciexp st @ [new_exposure env i],
                        ss_scii := ss_scii st @ [i]\<rparr>)
             else science_loop env rest
                    (st\<lparr>ss_log := ss_log st
                          @ [Info (''Skipping science frame with setup='' @ setup)]\<rparr>))
          else Inl (NameError ''prev_setup_dict'', st))"

text \<open>Lines 92-98: the empty record of a new group.\<close>

definition init_group :: "string list \<Rightarrow> group" where
  "init_group keys =
     fold (\<lambda>key g.
             (if key \<in> {''unknown'', ''dark''} then g else g(key \<mapsto> []))
             (''sciobj'' \<mapsto> [], ''stdobj'' \<mapsto> []))
          keys (\<lambda>k. None)"

text \<open>
  Lines 107-114: the indices of one frame type for one exposure. The file name is added
  only if it is new, and the target of a standard with it; the target of the science
  frame \<open>scidx\<close> is added at every index.
\<close>

fun fill_idx :: "'f setup_env \<Rightarrow> string \<Rightarrow> nat \<Rightarrow> nat list \<Rightarrow> group \<Rightarrow> error + group" where
  "fill_idx env key scidx [] g = Inr g"
| "fill_idx env key scidx (idx # rest) g =
     ebind (py_nth (fits_filename env) (int idx)) (\<lambda>fname.
     ebind (map_get g key) (\<lambda>files.
     ebind (if fname \<in> set files then Inr g
            else if key = ''standard'' then
              ebind (map_get (g(key \<mapsto> files @ [fname])) ''stdobj'') (\<lambda>stdobj.
              ebind (py_nth (fits_target env) (int idx)) (\<lambda>target.
              Inr (g(key \<mapsto> files @ [fname], ''stdobj'' \<mapsto> stdobj @ [target]))))
            else Inr (g(key \<mapsto> files @ [fname]))) (\<lambda>g1.
     ebind (if key = ''science'' then
              ebind (map_get g1 ''sciobj'') (\<lambda>sciobj.
              ebind (py_nth (fits_target env) (int scidx)) (\<lambda>target.
              Inr (g1(''sciobj'' \<mapsto> sciobj @ [target]))))
            else Inr g1) (\<lambda>g2.
     fill_idx env key scidx rest g2))))"

text \<open>Lines 104-114: every frame type but \<open>unknown\<close> and \<open>dark\<close>.\<close>

fun fill_keys :: "'f setup_env \<Rightarrow> nat \<Rightarrow> nat \<Rightarrow> string list \<Rightarrow> group \<Rightarrow> error + group" where
  "fill_keys env sc scidx [] g = Inr g"
| "fill_keys env sc scidx (key # rest) g =
     (if key \<in> {''unknown'', ''dark''} then fill_keys env sc scidx rest g
      else
        ebind (map_get (spect_index env) key) (\<lambda>index.
        ebind (py_nth index (int sc)) (\<lambda>idxs.
        ebind (fill_idx env key scidx idxs g) (\<lambda>g1.
        fill_keys env sc scidx rest g1))))"

text \<open>
  Lines 87-90: the group key of a setup, one two-digit number per detector. \<open>int(setup)\<close>
  is evaluated once per detector, so never without one.
\<close>

definition group_key_of :: "string \<Rightarrow> nat \<Rightarrow> error + string" where
  "group_key_of setup nd =
     (if nd = 0 then Inr (join ''_'' [])
      else ebind (py_int setup) (\<lambda>n. Inr (join ''_'' (map (\<lambda>i. fmt02 (n + i)) [0 ..< nd]))))"

text \<open>
  Lines 82-114 for the exposure at position \<open>sc\<close>. The detector loop fills the group in
  its first round only, so not at all without a detector. When filling raises, the state
  carried is the one before the filling began.
\<close>

definition group_step ::
  "'f setup_env \<Rightarrow> nat \<Rightarrow> 'f setup_state \<Rightarrow> (error \<times> 'f setup_state) + 'f setup_state" where
  "group_step env sc st =
     (case ebind (py_nth (ss_sciexp st) (int sc)) (\<lambda>e.
           ebind (py_nth (idx_sci e) 0) (\<lambda>scidx.
           ebind (py_nth (ss_scii st) (int sc)) (\<lambda>i. Inr (scidx, i)))) of
        Inl err \<Rightarrow> Inl (err, st)
      | Inr (scidx, i) \<Rightarrow>
          (let setup = instr_setup env i 1;
               st1 = st\<lparr>ss_log := ss_log st @ [Info (''setup='' @ setup)]\<rparr>
           in
           case group_key_of setup (ndet env) of
             Inl err \<Rightarrow> Inl (err, st1)
           | Inr group_key \<Rightarrow>
               (let gd = (if ss_group st1 group_key = None
                          then (ss_group st1)(group_key \<mapsto> init_group (filesort_keys env))
                          else ss_group st1);
                    st2 = st1\<lparr>ss_group := gd\<rparr>
                in
                if 0 < ndet env then
                  (case ebind (map_get gd group_key)
                          (fill_keys env sc scidx (filesort_keys env)) of
                     Inl err \<Rightarrow> Inl (err, st2)
                   | Inr g \<Rightarrow> Inr (st2\<lparr>ss_group := gd(group_key \<mapsto> g)\<rparr>))
                else Inr st2)))"

text \<open>Lines 81-114: the loop over the exposures.\<close>

fun group_loop ::
  "'f setup_env \<Rightarrow> nat list \<Rightarrow> 'f setup_state \<Rightarrow> (error \<times> 'f setup_state) + 'f setup_state" where
  "group_loop env [] st = Inr st"
| "group_loop env (sc # rest) st =
     (case group_step env sc st of
        Inl err \<Rightarrow> Inl err
      | Inr st1 \<Rightarrow> group_loop env rest st1)"

definition bug_overwrite :: "string" where
  "bug_overwrite = ''Files and folders should not be deleted -- there should be an option to overwrite files automatically if they already exist, or choose to rename them if necessary''"

definition io_if :: "bool \<Rightarrow> io \<Rightarrow> io list" where
  "io_if b x = (if b then [x] else [])"

text \<open>
  \<open>SetupScience(fitsdict)\<close>. An error carries the state reached when it was raised:
  \<open>Fatal\<close> is \<open>msgs.error\<close>, which ends the run, and \<open>SystemExit\<close> is the \<open>sys.exit()\<close>
  that ends a calibration check. A normal return hands back the exposures in \<open>ss_sciexp\<close>.
\<close>

definition SetupScience :: "'f setup_env \<Rightarrow> (error \<times> 'f setup_state) + 'f setup_state" where
  "SetupScience env =
     (let do_qa = \<not> calcheck env;
          st0 = \<lparr>ss_log = [], ss_io = [], ss_sciexp = [], ss_scii = [], ss_group = (\<lambda>k. None)\<rparr>
      in
      if reduce_setup env \<noteq> None \<and> nexist env = 0 then
        Inl (Fatal ''No .setup file provided.  Cannot use 'reduce setup' in Settings file'', st0)
      else
        (let st1 = st0\<lparr>ss_log := [Bug bug_overwrite],
                       ss_io := io_if (output_sorted env) SortWrite @ io_if do_qa MakeDirs\<rparr>
         in
         case science_loop env [0 ..< numsci_sorted env] st1 of
           Inl err \<Rightarrow> Inl err
         | Inr st2 \<Rightarrow>
             (case group_loop env [0 ..< length (ss_sciexp st2)] st2 of
                Inl err \<Rightarrow> Inl err
              | Inr st3 \<Rightarrow>
                  (let st4 = st3\<lparr>ss_io := ss_io st3 @ io_if (nexist env = 0) WriteSetup
                                                 @ [WriteGroup]\<rparr>
                   in
                   if calcheck env then
                     Inl (SystemExit,
                          st4\<lparr>ss_log := ss_log st4
                                @ [Info ''Calibration check complete. Change the 'calcheck' flag to continue with data reduction'',
                                   Info (''Inspect the setup file: '' @ setup_file env),
                                   Info (''Inspect the group file: '' @ group_file env)]\<rparr>)
                   else Inr st4))))"

text \<open>
  A background fit that returns a given frame whatever it is handed, for the examples.
\<close>

definition fit_const :: "frame \<Rightarrow> fit2d" where
  "fit_const bg = (\<lambda>bgfit sciframe w ord. bg)"

text \<open>
  A run for the examples: two science frames of one setup, both matched to the same
  standard frame, one detector, no setup file from an earlier run.
\<close>

definition two_sci_env :: "nat setup_env" where
  "two_sci_env =
     \<lparr>calcheck = False, reduce_setup = None, output_sorted = False, ndet = 1, nexist = 0,
      filesort_keys = [''science'', ''standard''], numsci_sorted = 2,
      spect_index = (\<lambda>k. if k = ''science'' then Some [[0], [1]]
                           else if k = ''standard'' then Some [[2], [2]] else None),
      fits_filename = [''sci0.fits'', ''sci1.fits'', ''std.fits''],
      fits_target = [''QSO_A'', ''QSO_B'', ''Feige34''],
      instr_setup_prev = (\<lambda>i. ''01''), instr_setup = (\<lambda>i d. ''01''),
      new_exposure = (\<lambda>i. exposure [i] [] [] [] [] [] []),
      setup_file = ''run.setup'', group_file = ''run.group''\<rparr>"

text \<open>
  What the loop of lines 107-110 leaves in a file list: each name is added at the end
  unless it is there already.
\<close>

fun add_new :: "'a list \<Rightarrow> 'a list \<Rightarrow> 'a list" where
  "add_new acc [] = acc"
| "add_new acc (x # xs) = add_new (if x \<in> set acc then acc else acc @ [x]) xs"

text \<open>
  The targets the loop adds to \<open>stdobj\<close> (lines 111-112): those of the indices whose
  file name was new when they were met.
\<close>

fun new_std :: "'f setup_env \<Rightarrow> string list \<Rightarrow> nat list \<Rightarrow> string list" where
  "new_std env files [] = []"
| "new_std env files (idx # rest) =
     (if fits_filename env ! idx \<in> set files then new_std env files rest
      else (fits_target env ! idx) # new_std env (files @ [fits_filename env ! idx]) rest)"


section \<open>Properties of UpdateMasters\<close>

lemma array_equal_iff: "array_equal a b \<longleftrightarrow> a = b"
  by (auto simp: array_equal_def list_all2_eq [symmetric] dest: list_all2_lengthD)

text \<open>
  C6. Called with an unrecognised \<open>ftype\<close>, or with \<open>ftype = "flat"\<close> and an unrecognised
  \<open>chktype\<close>, \<open>UpdateMasters\<close> logs one defect (\<open>msgs.bug\<close>) and returns normally with every
  exposure, and so every master-frame slot, as it was.
\<close>

theorem UpdateMasters_unrecognised:
  assumes "(ftype \<noteq> ''arc'' \<and> ftype \<noteq> ''bias'' \<and> ftype \<noteq> ''readnoise'' \<and> ftype \<noteq> ''flat''
              \<and> ftype \<noteq> ''standard'')
           \<or> (ftype = ''flat'' \<and> chktype \<noteq> ''trace'' \<and> chktype \<noteq> ''pixelflat'')"
  shows "\<exists>m. UpdateMasters sciexp sc det ftype chktype = Inr ([Bug m], sciexp)"
  using assms by (auto simp: UpdateMasters_def)

theorem UpdateMasters_unrecognised_witness:
  "UpdateMasters [exposure [0] [1] [2] [3] [4] [4] [5]] 0 1 ''flat'' ''dome''
     = Inr ([Bug ''I could not update frame of type flat and subtype dome''],
            [exposure [0] [1] [2] [3] [4] [4] [5]])
   \<and> (\<exists>m. UpdateMasters [exposure [0] [1] [2] [3] [4] [4] [5]] 7 1 ''wave'' ''trace''
            = Inr ([Bug m], [exposure [0] [1] [2] [3] [4] [4] [5]]))"
proof -
  have a: "\<exists>m. UpdateMasters [exposure [0] [1] [2] [3] [4] [4] [5]] 0 1 ''flat'' ''dome''
              = Inr ([Bug m], [exposure [0] [1] [2] [3] [4] [4] [5]])"
    by (rule UpdateMasters_unrecognised) simp
  have b: "\<exists>m. UpdateMasters [exposure [0] [1] [2] [3] [4] [4] [5]] 7 1 ''wave'' ''trace''
              = Inr ([Bug m], [exposure [0] [1] [2] [3] [4] [4] [5]])"
    by (rule UpdateMasters_unrecognised) simp
  from a b show ?thesis
    by (simp add: UpdateMasters_def bug_subtype_def)
qed


subsection \<open>Nothing is overwritten\<close>

lemma keeps_refl: "keeps se se" by (simp add: keeps_def)
lemma keeps_trans: "keeps a b \<Longrightarrow> keeps b c \<Longrightarrow> keeps a c" by (simp add: keeps_def)

lemma keeps_update:
  "GetMasterFrame (se ! i) t d = None \<Longrightarrow> keeps se (se[i := SetMasterFrame fr t d (se ! i)])"
  by (cases "i < length se") (auto simp: keeps_def GetMasterFrame_def SetMasterFrame_def nth_list_update)

lemma flat_loop_keeps:
  "keeps se (snd (st_of (flat_loop sc det ft ot ct ca idxs (lg, se))))"
proof (induction idxs arbitrary: lg se)
  case Nil
  show ?case by (simp add: keeps_refl)
next
  case (Cons i rest)
  have step: "keeps se (snd (st_of (flat_loop sc det ft ot ct ca rest
                 (lg', se[i := SetMasterFrame fr ct det (se ! i)]))))"
    if "GetMasterFrame (se ! i) ct det = None" for fr lg'
    using that Cons.IH keeps_trans keeps_update by blast
  show ?case
    using Cons.IH [where se = se] step
    by (simp add: keeps_refl split: option.splits)
qed

lemma plain_loop_keeps:
  "keeps se (snd (st_of (plain_loop sc det ft ca idxs (lg, se))))"
proof (induction idxs arbitrary: lg se)
  case Nil
  show ?case by (simp add: keeps_refl)
next
  case (Cons i rest)
  have step: "keeps se (snd (st_of (plain_loop sc det ft ca rest
                 (lg', se[i := SetMasterFrame fr ft det (se ! i)]))))"
    if "GetMasterFrame (se ! i) ft det = None" for fr lg'
    using that Cons.IH keeps_trans keeps_update by blast
  show ?case
    using Cons.IH [where se = se] step
    by (simp add: keeps_refl split: option.splits)
qed

lemma loops_keeps: "keeps sciexp (snd (UpdateMasters_loops sciexp sc det ftype chktype chkarr))"
proof (cases "ftype = ''flat''")
  case False
  let ?r = "plain_loop sc det ftype chkarr [sc + 1 ..< length sciexp] ([], sciexp)"
  have "keeps sciexp (snd (st_of ?r))"
    by (rule plain_loop_keeps)
  with False show ?thesis
    by (cases ?r) (simp_all add: UpdateMasters_loops_def)
next
  case True
  let ?r1 = "flat_loop sc det ftype chktype chktype chkarr [sc + 1 ..< length sciexp] ([], sciexp)"
  have k1: "keeps sciexp (snd (st_of ?r1))" by (rule flat_loop_keeps)
  show ?thesis
  proof (cases ?r1)
    case (Return st)
    with k1 True show ?thesis by (simp add: UpdateMasters_loops_def)
  next
    case (Next st)
    obtain lg1 se1 where st: "st = (lg1, se1)" by (cases st)
    let ?r2 = "flat_loop sc det ftype chktype (other_flat chktype) chkarr [sc ..< length sciexp] (lg1, se1)"
    have "keeps se1 (snd (st_of ?r2))"
      by (rule flat_loop_keeps)
    moreover from k1 Next st have "keeps sciexp se1" by simp
    ultimately have "keeps sciexp (snd (st_of ?r2))"
      by (rule keeps_trans [rotated])
    with True Next st show ?thesis
      by (cases ?r2) (simp_all add: UpdateMasters_loops_def)
  qed
qed

lemma UpdateMasters_Inr:
  assumes "UpdateMasters sciexp sc det ftype chktype = Inr st"
  shows "st = ([Bug (bug_type ftype)], sciexp) \<or> st = ([Bug (bug_subtype ftype chktype)], sciexp)
         \<or> (\<exists>chkarr. st = UpdateMasters_loops sciexp sc det ftype chktype chkarr)"
  using assms
  by (auto simp: UpdateMasters_def sciexp_at_def split: if_splits)

lemma UpdateMasters_Inl:
  assumes "UpdateMasters sciexp sc det ftype chktype = Inl e"
  shows "e = IndexError \<and> length sciexp \<le> sc"
  using assms
  by (auto simp: UpdateMasters_def sciexp_at_def split: if_splits)

lemma flat_chkfarr_Set [simp]:
  "flat_chkfarr ct (SetMasterFrame fr t d e) = flat_chkfarr ct e"
  by (simp add: flat_chkfarr_def SetMasterFrame_def)

lemma plain_chkfarr_Set [simp]:
  "plain_chkfarr ft (SetMasterFrame fr t d e) = plain_chkfarr ft e"
  by (simp add: plain_chkfarr_def SetMasterFrame_def)

lemma Get_Set:
  "GetMasterFrame (SetMasterFrame fr t d e) t' d' = (if t' = t \<and> d' = d then fr else GetMasterFrame e t' d')"
  by (simp add: GetMasterFrame_def SetMasterFrame_def)

lemma flat_loop_char:
  assumes "distinct idxs" and "sc < length se" and "ct = ''trace'' \<or> ct = ''pixelflat''"
    and "sc \<notin> set idxs \<or> ot \<noteq> ct"
  shows "\<exists>lg' se'. flat_loop sc det ft ot ct ca idxs (lg, se) = Next (lg', se')
           \<and> length se' = length se
           \<and> (\<forall>j<length se. se' ! j =
                 (if j \<in> set idxs \<and> flat_chkfarr ct (se ! j) = Some ca
                      \<and> GetMasterFrame (se ! j) ct det = None
                  then SetMasterFrame (GetMasterFrame (se ! sc) ot det) ct det (se ! j)
                  else se ! j))"
  using assms
proof (induction idxs arbitrary: lg se)
  case Nil
  then show ?case by simp
next
  case (Cons i rest)
  obtain cf where cf: "flat_chkfarr ct (se ! i) = Some cf"
    using Cons.prems(3) by (auto simp: flat_chkfarr_def)
  let ?src = "GetMasterFrame (se ! sc) ot det"
  let ?hit = "array_equal ca cf \<and> GetMasterFrame (se ! i) ct det = None"
  define se1 where "se1 = (if ?hit then se[i := SetMasterFrame ?src ct det (se ! i)] else se)"
  define lg1 where "lg1 = (if ?hit then lg @ [Info (info_update ct (i + 1) (length se))] else lg)"
  have unfold: "flat_loop sc det ft ot ct ca (i # rest) (lg, se)
                  = flat_loop sc det ft ot ct ca rest (lg1, se1)"
    using cf by (simp add: se1_def lg1_def)
  have len: "length se1 = length se" by (simp add: se1_def)
  have src: "GetMasterFrame (se1 ! sc) ot det = ?src"
    using Cons.prems(2,4) by (cases "i = sc") (auto simp: se1_def Get_Set)
  have other: "se1 ! j = se ! j" if "j \<noteq> i" for j
    using that by (simp add: se1_def)
  have at_i: "se1 ! i = (if flat_chkfarr ct (se ! i) = Some ca \<and> GetMasterFrame (se ! i) ct det = None
                         then SetMasterFrame ?src ct det (se ! i) else se ! i)" if "i < length se"
    using that cf by (auto simp: se1_def array_equal_iff)
  from Cons.prems have p: "distinct rest" "sc < length se1" "sc \<notin> set rest \<or> ot \<noteq> ct" "i \<notin> set rest"
    by (auto simp: len)
  from Cons.IH [OF p(1) p(2) Cons.prems(3) p(3), of lg1]
  obtain lg' se' where r: "flat_loop sc det ft ot ct ca rest (lg1, se1) = Next (lg', se')"
    and l: "length se' = length se1"
    and c: "\<forall>j<length se1. se' ! j =
                 (if j \<in> set rest \<and> flat_chkfarr ct (se1 ! j) = Some ca
                      \<and> GetMasterFrame (se1 ! j) ct det = None
                  then SetMasterFrame (GetMasterFrame (se1 ! sc) ot det) ct det (se1 ! j)
                  else se1 ! j)"
    by blast
  have "se' ! j = (if j \<in> set (i # rest) \<and> flat_chkfarr ct (se ! j) = Some ca
                      \<and> GetMasterFrame (se ! j) ct det = None
                  then SetMasterFrame ?src ct det (se ! j) else se ! j)" if j: "j < length se" for j
  proof (cases "j = i")
    case True
    with c j len p(4) have "se' ! j = se1 ! i" by simp
    with at_i True j show ?thesis by simp
  next
    case False
    with c j len src other [of j] show ?thesis by simp
  qed
  with unfold r l len show ?case by simp
qed


lemma plain_loop_char:
  assumes "distinct idxs" and "sc < length se"
    and "ft = ''arc'' \<or> ft = ''bias'' \<or> ft = ''standard''"
    and "sc \<notin> set idxs"
  shows "\<exists>lg' se'. plain_loop sc det ft ca idxs (lg, se) = Next (lg', se')
           \<and> length se' = length se
           \<and> (\<forall>j<length se. se' ! j =
                 (if j \<in> set idxs \<and> plain_chkfarr ft (se ! j) = Some ca
                      \<and> GetMasterFrame (se ! j) ft det = None
                  then SetMasterFrame (GetMasterFrame (se ! sc) ft det) ft det (se ! j)
                  else se ! j))"
  using assms
proof (induction idxs arbitrary: lg se)
  case Nil
  then show ?case by simp
next
  case (Cons i rest)
  obtain cf where cf: "plain_chkfarr ft (se ! i) = Some cf"
    using Cons.prems(3) by (auto simp: plain_chkfarr_def)
  let ?src = "GetMasterFrame (se ! sc) ft det"
  let ?hit = "array_equal ca cf \<and> GetMasterFrame (se ! i) ft det = None"
  define se1 where "se1 = (if ?hit then se[i := SetMasterFrame ?src ft det (se ! i)] else se)"
  define lg1 where "lg1 = (if ?hit then lg @ [Info (info_update ft (i + 1) (length se))] else lg)"
  have unfold: "plain_loop sc det ft ca (i # rest) (lg, se) = plain_loop sc det ft ca rest (lg1, se1)"
    using cf by (simp add: se1_def lg1_def)
  have len: "length se1 = length se" by (simp add: se1_def)
  have src: "GetMasterFrame (se1 ! sc) ft det = ?src"
    using Cons.prems(2,4) by (auto simp: se1_def)
  have other: "se1 ! j = se ! j" if "j \<noteq> i" for j
    using that by (simp add: se1_def)
  have at_i: "se1 ! i = (if plain_chkfarr ft (se ! i) = Some ca \<and> GetMasterFrame (se ! i) ft det = None
                         then SetMasterFrame ?src ft det (se ! i) else se ! i)" if "i < length se"
    using that cf by (auto simp: se1_def array_equal_iff)
  from Cons.prems have p: "distinct rest" "sc < length se1" "sc \<notin> set rest" "i \<notin> set rest"
    by (auto simp: len)
  from Cons.IH [OF p(1) p(2) Cons.prems(3) p(3), of lg1]
  obtain lg' se' where r: "plain_loop sc det ft ca rest (lg1, se1) = Next (lg', se')"
    and l: "length se' = length se1"
    and c: "\<forall>j<length se1. se' ! j =
                 (if j \<in> set rest \<and> plain_chkfarr ft (se1 ! j) = Some ca
                      \<and> GetMasterFrame (se1 ! j) ft det = None
                  then SetMasterFrame (GetMasterFrame (se1 ! sc) ft det) ft det (se1 ! j)
                  else se1 ! j)"
    by blast
  have "se' ! j = (if j \<in> set (i # rest) \<and> plain_chkfarr ft (se ! j) = Some ca
                      \<and> GetMasterFrame (se ! j) ft det = None
                  then SetMasterFrame ?src ft det (se ! j) else se ! j)" if j: "j < length se" for j
  proof (cases "j = i")
    case True
    with c j len p(4) have "se' ! j = se1 ! i" by simp
    with at_i True j show ?thesis by simp
  next
    case False
    with c j len src other [of j] show ?thesis by simp
  qed
  with unfold r l len show ?case by simp
qed

lemma other_flat_neq: "ct = ''trace'' \<or> ct = ''pixelflat'' \<Longrightarrow> other_flat ct \<noteq> ct"
  by (auto simp: other_flat_def)

lemma other_flat_rec:
  "ct = ''trace'' \<or> ct = ''pixelflat'' \<Longrightarrow> other_flat ct = ''trace'' \<or> other_flat ct = ''pixelflat''"
  by (auto simp: other_flat_def)

text \<open>The two flat loops in sequence, for a recognised subtype.\<close>

lemma flat_loops_char:
  assumes sc: "sc < length sciexp" and ct: "ct = ''trace'' \<or> ct = ''pixelflat''"
  shows "\<exists>lg es. UpdateMasters_loops sciexp sc det ''flat'' ct ca = (lg, es)
           \<and> length es = length sciexp
           \<and> (\<forall>j<length sciexp.
                 GetMasterFrame (es ! j) ct det =
                   (if sc < j \<and> flat_chkfarr ct (sciexp ! j) = Some ca
                        \<and> GetMasterFrame (sciexp ! j) ct det = None
                    then GetMasterFrame (sciexp ! sc) ct det
                    else GetMasterFrame (sciexp ! j) ct det)
               \<and> GetMasterFrame (es ! j) (other_flat ct) det =
                   (if sc \<le> j \<and> flat_chkfarr (other_flat ct) (sciexp ! j) = Some ca
                        \<and> GetMasterFrame (sciexp ! j) (other_flat ct) det = None
                    then GetMasterFrame (sciexp ! sc) ct det
                    else GetMasterFrame (sciexp ! j) (other_flat ct) det))"
proof -
  let ?n = "length sciexp"
  let ?o = "other_flat ct"
  have neq: "?o \<noteq> ct" using ct by (rule other_flat_neq)
  from flat_loop_char [of "[sc + 1 ..< ?n]" sc sciexp ct ct det "''flat''" ca "[]"] sc ct
  obtain lg1 se1 where r1: "flat_loop sc det ''flat'' ct ct ca [sc + 1 ..< ?n] ([], sciexp) = Next (lg1, se1)"
    and l1: "length se1 = ?n"
    and c1: "\<forall>j<?n. se1 ! j =
                 (if j \<in> set [sc + 1 ..< ?n] \<and> flat_chkfarr ct (sciexp ! j) = Some ca
                      \<and> GetMasterFrame (sciexp ! j) ct det = None
                  then SetMasterFrame (GetMasterFrame (sciexp ! sc) ct det) ct det (sciexp ! j)
                  else sciexp ! j)"
    by auto
  from flat_loop_char [of "[sc ..< ?n]" sc se1 ?o ct det "''flat''" ca lg1] sc l1 neq other_flat_rec [OF ct]
  obtain lg2 se2 where r2: "flat_loop sc det ''flat'' ct ?o ca [sc ..< ?n] (lg1, se1) = Next (lg2, se2)"
    and l2: "length se2 = ?n"
    and c2: "\<forall>j<?n. se2 ! j =
                 (if j \<in> set [sc ..< ?n] \<and> flat_chkfarr ?o (se1 ! j) = Some ca
                      \<and> GetMasterFrame (se1 ! j) ?o det = None
                  then SetMasterFrame (GetMasterFrame (se1 ! sc) ct det) ?o det (se1 ! j)
                  else se1 ! j)"
    by auto
  have res: "UpdateMasters_loops sciexp sc det ''flat'' ct ca = (lg2, se2)"
    using r1 r2 by (simp add: UpdateMasters_loops_def)
  have s1: "se1 ! sc = sciexp ! sc" using c1 sc by simp
  have a1: "flat_chkfarr t (se1 ! j) = flat_chkfarr t (sciexp ! j)" if "j < ?n" for j t
    using c1 that by simp
  have b1: "GetMasterFrame (se1 ! j) ?o det = GetMasterFrame (sciexp ! j) ?o det" if "j < ?n" for j
    using c1 that neq by (simp add: Get_Set)
  have d1: "GetMasterFrame (se1 ! j) ct det =
                   (if sc < j \<and> flat_chkfarr ct (sciexp ! j) = Some ca
                        \<and> GetMasterFrame (sciexp ! j) ct det = None
                    then GetMasterFrame (sciexp ! sc) ct det
                    else GetMasterFrame (sciexp ! j) ct det)" if "j < ?n" for j
    using c1 that by (auto simp: Get_Set)
  have "GetMasterFrame (se2 ! j) ct det = GetMasterFrame (se1 ! j) ct det
        \<and> GetMasterFrame (se2 ! j) ?o det =
                   (if sc \<le> j \<and> flat_chkfarr ?o (sciexp ! j) = Some ca
                        \<and> GetMasterFrame (sciexp ! j) ?o det = None
                    then GetMasterFrame (sciexp ! sc) ct det
                    else GetMasterFrame (sciexp ! j) ?o det)" if j: "j < ?n" for j
    using c2 j neq s1 a1 [OF j] b1 [OF j] by (auto simp: Get_Set)
  with d1 res l2 show ?thesis by simp
qed

lemma plain_loops_char:
  assumes sc: "sc < length sciexp" and ft: "ft = ''arc'' \<or> ft = ''bias'' \<or> ft = ''standard''"
  shows "\<exists>lg es. UpdateMasters_loops sciexp sc det ft ct ca = (lg, es)
           \<and> length es = length sciexp
           \<and> (\<forall>j<length sciexp.
                 GetMasterFrame (es ! j) ft det =
                   (if sc < j \<and> plain_chkfarr ft (sciexp ! j) = Some ca
                        \<and> GetMasterFrame (sciexp ! j) ft det = None
                    then GetMasterFrame (sciexp ! sc) ft det
                    else GetMasterFrame (sciexp ! j) ft det))"
proof -
  let ?n = "length sciexp"
  from plain_loop_char [of "[sc + 1 ..< ?n]" sc sciexp ft det ca "[]"] sc ft
  obtain lg1 se1 where r1: "plain_loop sc det ft ca [sc + 1 ..< ?n] ([], sciexp) = Next (lg1, se1)"
    and l1: "length se1 = ?n"
    and c1: "\<forall>j<?n. se1 ! j =
                 (if j \<in> set [sc + 1 ..< ?n] \<and> plain_chkfarr ft (sciexp ! j) = Some ca
                      \<and> GetMasterFrame (sciexp ! j) ft det = None
                  then SetMasterFrame (GetMasterFrame (sciexp ! sc) ft det) ft det (sciexp ! j)
                  else sciexp ! j)"
    by auto
  have nf: "ft \<noteq> ''flat''" using ft by auto
  have res: "UpdateMasters_loops sciexp sc det ft ct ca = (lg1, se1)"
    using r1 nf by (simp add: UpdateMasters_loops_def)
  have "GetMasterFrame (se1 ! j) ft det =
                   (if sc < j \<and> plain_chkfarr ft (sciexp ! j) = Some ca
                        \<and> GetMasterFrame (sciexp ! j) ft det = None
                    then GetMasterFrame (sciexp ! sc) ft det
                    else GetMasterFrame (sciexp ! j) ft det)" if "j < ?n" for j
    using c1 that by (auto simp: Get_Set)
  with res l1 show ?thesis by simp
qed





lemma UpdateMasters_flat_eq:
  assumes "sc < length sciexp" and "flat_chkfarr chktype (sciexp ! sc) = Some a"
  shows "UpdateMasters sciexp sc det ''flat'' chktype
           = Inr (UpdateMasters_loops sciexp sc det ''flat'' chktype a)"
  using assms by (simp add: UpdateMasters_def sciexp_at_def flat_chkfarr_def split: if_splits)

lemma UpdateMasters_plain_eq:
  assumes "sc < length sciexp" and "plain_chkfarr ftype (sciexp ! sc) = Some a"
  shows "UpdateMasters sciexp sc det ftype chktype
           = Inr (UpdateMasters_loops sciexp sc det ftype chktype a)"
  using assms by (simp add: UpdateMasters_def sciexp_at_def plain_chkfarr_def split: if_splits)

lemma flat_chkfarr_SomeD: "flat_chkfarr ct e = Some a \<Longrightarrow> ct = ''trace'' \<or> ct = ''pixelflat''"
  by (simp add: flat_chkfarr_def split: if_splits)

lemma plain_chkfarr_SomeD:
  "plain_chkfarr ft e = Some a \<Longrightarrow> ft = ''arc'' \<or> ft = ''bias'' \<or> ft = ''standard''"
  by (simp add: plain_chkfarr_def split: if_splits)


text \<open>The definitions a concrete call is evaluated with.\<close>

lemmas um_eval = UpdateMasters_def UpdateMasters_loops_def sciexp_at_def plain_chkfarr_def flat_chkfarr_def
  array_equal_def GetMasterFrame_def SetMasterFrame_def exposure_def with_master_def other_flat_def
  req_list_def slot_of_def

subsection \<open>Equality of requirement lists\<close>

text \<open>
  C1 (as amended). The comparison is \<open>np.array_equal\<close> on the index arrays: two
  requirement lists are treated as equal exactly when they are the same sequence. For a
  recognised type (arc, bias, standard, or flat with subtype trace or pixelflat) and a later
  exposure \<open>i > sc\<close>, the same-type slot of \<open>i\<close> after the call holds the master frame of
  \<open>sc\<close> when the list of \<open>i\<close> is identical, in order, to the list of \<open>sc\<close> and the slot
  was empty; otherwise the slot is as it was.
\<close>

theorem UpdateMasters_exact_equality:
  assumes "sc < i" and "i < length sciexp"
    and "req_list ftype chktype (sciexp ! sc) = Some a"
    and "req_list ftype chktype (sciexp ! i) = Some b"
  shows "\<exists>lg es. UpdateMasters sciexp sc det ftype chktype = Inr (lg, es)
           \<and> GetMasterFrame (es ! i) (slot_of ftype chktype) det =
               (if a = b \<and> GetMasterFrame (sciexp ! i) (slot_of ftype chktype) det = None
                then GetMasterFrame (sciexp ! sc) (slot_of ftype chktype) det
                else GetMasterFrame (sciexp ! i) (slot_of ftype chktype) det)"
proof (cases "ftype = ''flat''")
  case True
  from assms(1,2) have sc: "sc < length sciexp" by simp
  from assms(3,4) True have a: "flat_chkfarr chktype (sciexp ! sc) = Some a"
    and b: "flat_chkfarr chktype (sciexp ! i) = Some b"
    by (simp_all add: req_list_def)
  have ct: "chktype = ''trace'' \<or> chktype = ''pixelflat''"
    using a by (rule flat_chkfarr_SomeD)
  from flat_loops_char [OF sc ct, of det a]
  obtain lg es where r: "UpdateMasters_loops sciexp sc det ''flat'' chktype a = (lg, es)"
    and c: "\<forall>j<length sciexp.
                 GetMasterFrame (es ! j) chktype det =
                   (if sc < j \<and> flat_chkfarr chktype (sciexp ! j) = Some a
                        \<and> GetMasterFrame (sciexp ! j) chktype det = None
                    then GetMasterFrame (sciexp ! sc) chktype det
                    else GetMasterFrame (sciexp ! j) chktype det)"
    by blast
  have "UpdateMasters sciexp sc det ftype chktype = Inr (lg, es)"
    using UpdateMasters_flat_eq [OF sc a] r True by simp
  moreover have "GetMasterFrame (es ! i) chktype det =
               (if a = b \<and> GetMasterFrame (sciexp ! i) chktype det = None
                then GetMasterFrame (sciexp ! sc) chktype det
                else GetMasterFrame (sciexp ! i) chktype det)"
    using c assms(1,2) b by auto
  ultimately show ?thesis using True by (simp add: slot_of_def)
next
  case False
  from assms(1,2) have sc: "sc < length sciexp" by simp
  from assms(3,4) False have a: "plain_chkfarr ftype (sciexp ! sc) = Some a"
    and b: "plain_chkfarr ftype (sciexp ! i) = Some b"
    by (simp_all add: req_list_def)
  have ft: "ftype = ''arc'' \<or> ftype = ''bias'' \<or> ftype = ''standard''"
    using a by (rule plain_chkfarr_SomeD)
  from plain_loops_char [OF sc ft, of det chktype a]
  obtain lg es where r: "UpdateMasters_loops sciexp sc det ftype chktype a = (lg, es)"
    and c: "\<forall>j<length sciexp.
                 GetMasterFrame (es ! j) ftype det =
                   (if sc < j \<and> plain_chkfarr ftype (sciexp ! j) = Some a
                        \<and> GetMasterFrame (sciexp ! j) ftype det = None
                    then GetMasterFrame (sciexp ! sc) ftype det
                    else GetMasterFrame (sciexp ! j) ftype det)"
    by blast
  have "UpdateMasters sciexp sc det ftype chktype = Inr (lg, es)"
    using UpdateMasters_plain_eq [OF sc a] r by simp
  moreover have "GetMasterFrame (es ! i) ftype det =
               (if a = b \<and> GetMasterFrame (sciexp ! i) ftype det = None
                then GetMasterFrame (sciexp ! sc) ftype det
                else GetMasterFrame (sciexp ! i) ftype det)"
    using c assms(1,2) b by auto
  ultimately show ?thesis using False by (simp add: slot_of_def)
qed

text \<open>
  The theorem at three exposures: the second has the list \<open>[1, 2]\<close> of the first and
  receives its arc master, the third has the permuted list \<open>[2, 1]\<close> and receives nothing.
\<close>

theorem UpdateMasters_exact_equality_witness:
  "(\<exists>lg es. UpdateMasters [with_master ''arc'' 1 7 (exposure [0] [1, 2] [] [] [] [] []),
                            exposure [3] [1, 2] [] [] [] [] [],
                            exposure [4] [2, 1] [] [] [] [] []] 0 1 ''arc'' '''' = Inr (lg, es)
       \<and> GetMasterFrame (es ! 1) ''arc'' 1 = Some 7)
   \<and> (\<exists>lg es. UpdateMasters [with_master ''arc'' 1 7 (exposure [0] [1, 2] [] [] [] [] []),
                            exposure [3] [1, 2] [] [] [] [] [],
                            exposure [4] [2, 1] [] [] [] [] []] 0 1 ''arc'' '''' = Inr (lg, es)
       \<and> GetMasterFrame (es ! 2) ''arc'' 1 = None)"
  using UpdateMasters_exact_equality [of 0 1 "[with_master ''arc'' 1 7 (exposure [0] [1, 2] [] [] [] [] []),
                            exposure [3] [1, 2] [] [] [] [] [],
                            exposure [4] [2, 1] [] [] [] [] []]" "''arc''" "''''" "[1, 2]" "[1, 2]" 1]
    UpdateMasters_exact_equality [of 0 2 "[with_master ''arc'' 1 7 (exposure [0] [1, 2] [] [] [] [] []),
                            exposure [3] [1, 2] [] [] [] [] [],
                            exposure [4] [2, 1] [] [] [] [] []]" "''arc''" "''''" "[1, 2]" "[2, 1]" 1]
  by (simp add: req_list_def slot_of_def plain_chkfarr_def exposure_def with_master_def
        GetMasterFrame_def SetMasterFrame_def)

text \<open>
  C1 as stated fails: \<open>[2, 1]\<close> is a permutation of \<open>[1, 2]\<close>, yet the exposure that
  lists its arcs as \<open>[1, 2]\<close> receives the master frame and the one that lists them as
  \<open>[2, 1]\<close> does not.
\<close>

theorem permuted_requirement_list_counterexample:
  "mset [2, 1 :: nat] = mset [1, 2]
   \<and> (\<exists>lg es. UpdateMasters [with_master ''arc'' 1 7 (exposure [0] [1, 2] [] [] [] [] []),
                            exposure [3] [1, 2] [] [] [] [] []] 0 1 ''arc'' '''' = Inr (lg, es)
         \<and> GetMasterFrame (es ! 1) ''arc'' 1 = Some 7)
   \<and> (\<exists>lg es. UpdateMasters [with_master ''arc'' 1 7 (exposure [0] [1, 2] [] [] [] [] []),
                            exposure [3] [2, 1] [] [] [] [] []] 0 1 ''arc'' '''' = Inr (lg, es)
         \<and> GetMasterFrame (es ! 1) ''arc'' 1 = None)"
  by (simp add: um_eval)

subsection \<open>Flats across the two subtypes\<close>

text \<open>
  C4 (as amended). After \<open>UpdateMasters\<close> for flat subtype \<open>chktype\<close> on exposure \<open>sc\<close>,
  whose index list for that subtype is \<open>R\<close> and whose master of that subtype is \<open>f\<close>:
  for every exposure \<open>i \<ge> sc\<close> (\<open>sc\<close> itself included) with index list \<open>L\<close> for the other
  subtype, the slot of \<open>i\<close> for the other subtype holds \<open>f\<close> exactly when \<open>L\<close> is the
  same sequence as \<open>R\<close> and the slot was empty; otherwise the slot is as it was. A list
  that holds the indices of \<open>R\<close> in another order receives nothing.
\<close>

theorem flat_other_subtype_receives:
  assumes "chktype = ''trace'' \<or> chktype = ''pixelflat''"
    and "sc \<le> i" and "i < length sciexp"
    and "flat_chkfarr chktype (sciexp ! sc) = Some R"
    and "flat_chkfarr (other_flat chktype) (sciexp ! i) = Some L"
    and "GetMasterFrame (sciexp ! sc) chktype det = Some f"
  shows "\<exists>lg es. UpdateMasters sciexp sc det ''flat'' chktype = Inr (lg, es)
           \<and> length es = length sciexp
           \<and> GetMasterFrame (es ! i) (other_flat chktype) det =
               (if L = R \<and> GetMasterFrame (sciexp ! i) (other_flat chktype) det = None
                then Some f
                else GetMasterFrame (sciexp ! i) (other_flat chktype) det)"
proof -
  from assms(2,3) have sc: "sc < length sciexp" by simp
  from flat_loops_char [OF sc assms(1), of det R]
  obtain lg es where r: "UpdateMasters_loops sciexp sc det ''flat'' chktype R = (lg, es)"
    and l: "length es = length sciexp"
    and c: "\<forall>j<length sciexp.
               GetMasterFrame (es ! j) (other_flat chktype) det =
                   (if sc \<le> j \<and> flat_chkfarr (other_flat chktype) (sciexp ! j) = Some R
                        \<and> GetMasterFrame (sciexp ! j) (other_flat chktype) det = None
                    then GetMasterFrame (sciexp ! sc) chktype det
                    else GetMasterFrame (sciexp ! j) (other_flat chktype) det)"
    by blast
  have "UpdateMasters sciexp sc det ''flat'' chktype = Inr (lg, es)"
    using UpdateMasters_flat_eq [OF sc assms(4)] r by simp
  moreover have "GetMasterFrame (es ! i) (other_flat chktype) det =
               (if L = R \<and> GetMasterFrame (sciexp ! i) (other_flat chktype) det = None
                then Some f
                else GetMasterFrame (sciexp ! i) (other_flat chktype) det)"
    using c assms(2,3,5,6) by auto
  ultimately show ?thesis using l by blast
qed

text \<open>
  The theorem at three exposures: the trace master of the first reaches the pixelflat
  slot of the second and of the first itself, whose pixelflat lists are \<open>[4, 5]\<close>, and not
  that of the third, whose pixelflat list is \<open>[5, 4]\<close>.
\<close>

theorem flat_other_subtype_receives_witness:
  "(\<exists>lg es. UpdateMasters [with_master ''trace'' 1 7 (exposure [0] [] [] [] [4, 5] [4, 5] []),
                           exposure [1] [] [] [] [6] [4, 5] [],
                           exposure [2] [] [] [] [6] [5, 4] []] 0 1 ''flat'' ''trace'' = Inr (lg, es)
       \<and> length es = Suc (Suc (Suc 0)) \<and> GetMasterFrame (es ! 1) ''pixelflat'' 1 = Some 7)
   \<and> (\<exists>lg es. UpdateMasters [with_master ''trace'' 1 7 (exposure [0] [] [] [] [4, 5] [4, 5] []),
                           exposure [1] [] [] [] [6] [4, 5] [],
                           exposure [2] [] [] [] [6] [5, 4] []] 0 1 ''flat'' ''trace'' = Inr (lg, es)
       \<and> length es = Suc (Suc (Suc 0)) \<and> GetMasterFrame (es ! 0) ''pixelflat'' 1 = Some 7)
   \<and> (\<exists>lg es. UpdateMasters [with_master ''trace'' 1 7 (exposure [0] [] [] [] [4, 5] [4, 5] []),
                           exposure [1] [] [] [] [6] [4, 5] [],
                           exposure [2] [] [] [] [6] [5, 4] []] 0 1 ''flat'' ''trace'' = Inr (lg, es)
       \<and> length es = Suc (Suc (Suc 0)) \<and> GetMasterFrame (es ! 2) ''pixelflat'' 1 = None)"
  using flat_other_subtype_receives [of "''trace''" 0 1
          "[with_master ''trace'' 1 7 (exposure [0] [] [] [] [4, 5] [4, 5] []),
            exposure [1] [] [] [] [6] [4, 5] [],
            exposure [2] [] [] [] [6] [5, 4] []]" "[4, 5]" "[4, 5]" 1 7]
        flat_other_subtype_receives [of "''trace''" 0 0
          "[with_master ''trace'' 1 7 (exposure [0] [] [] [] [4, 5] [4, 5] []),
            exposure [1] [] [] [] [6] [4, 5] [],
            exposure [2] [] [] [] [6] [5, 4] []]" "[4, 5]" "[4, 5]" 1 7]
        flat_other_subtype_receives [of "''trace''" 0 2
          "[with_master ''trace'' 1 7 (exposure [0] [] [] [] [4, 5] [4, 5] []),
            exposure [1] [] [] [] [6] [4, 5] [],
            exposure [2] [] [] [] [6] [5, 4] []]" "[4, 5]" "[5, 4]" 1 7]
  by (simp add: other_flat_def flat_chkfarr_def exposure_def with_master_def
        GetMasterFrame_def SetMasterFrame_def)

text \<open>
  C4 as stated fails: the pixelflat list \<open>[5, 4]\<close> of the second exposure equals the
  trace list \<open>[4, 5]\<close> of the first as a set, its pixelflat slot is empty, and it is
  still empty after the call.
\<close>

theorem flat_other_subtype_permuted_counterexample:
  "mset [5, 4 :: nat] = mset [4, 5]
   \<and> GetMasterFrame (exposure [1] [] [] [] [6] [5, 4] []) ''pixelflat'' 1 = None
   \<and> (\<exists>lg es. UpdateMasters [with_master ''trace'' 1 7 (exposure [0] [] [] [] [4, 5] [] []),
                            exposure [1] [] [] [] [6] [5, 4] []] 0 1 ''flat'' ''trace'' = Inr (lg, es)
         \<and> GetMasterFrame (es ! 1) ''pixelflat'' 1 = None)"
  by (simp add: um_eval)

subsection \<open>A master frame that is present stays\<close>

text \<open>
  C5. Whatever the arguments, a call either raises \<open>IndexError\<close> at \<open>sciexp[sc]\<close> before
  anything is written, or returns with the same number of exposures and with every
  master-frame slot that was set before the call holding the same frame after it.
\<close>

theorem UpdateMasters_never_overwrites:
  "case UpdateMasters sciexp sc det ftype chktype of
     Inl e \<Rightarrow> e = IndexError \<and> length sciexp \<le> sc
   | Inr (lg, es) \<Rightarrow> keeps sciexp es"
proof (cases "UpdateMasters sciexp sc det ftype chktype")
  case (Inl e)
  then show ?thesis using UpdateMasters_Inl [OF Inl] by simp
next
  case (Inr st)
  from UpdateMasters_Inr [OF Inr] have "keeps sciexp (snd st)"
    using loops_keeps [of sciexp sc det ftype chktype] by (auto simp: keeps_refl)
  with Inr show ?thesis by (cases st) simp
qed

text \<open>
  The theorem at two exposures with equal arc lists that both have an arc master already:
  the second keeps its own frame.
\<close>

theorem UpdateMasters_never_overwrites_witness:
  "case UpdateMasters [with_master ''arc'' 1 7 (exposure [0] [1, 2] [] [] [] [] []),
                       with_master ''arc'' 1 9 (exposure [3] [1, 2] [] [] [] [] [])] 0 1 ''arc'' '''' of
     Inl e \<Rightarrow> False
   | Inr (lg, es) \<Rightarrow>
       keeps [with_master ''arc'' 1 7 (exposure [0] [1, 2] [] [] [] [] []),
              with_master ''arc'' 1 9 (exposure [3] [1, 2] [] [] [] [] [])] es
       \<and> GetMasterFrame (es ! 1) ''arc'' 1 = Some 9"
  using UpdateMasters_never_overwrites [of "[with_master ''arc'' 1 7 (exposure [0] [1, 2] [] [] [] [] []),
                       with_master ''arc'' 1 9 (exposure [3] [1, 2] [] [] [] [] [])]" 0 1 "''arc''" "''''"]
  by (simp add: um_eval)

subsection \<open>Readnoise\<close>

text \<open>
  C10 (as amended). A call with \<open>ftype = "readnoise"\<close> never changes an exposure. It
  logs the defect only when there is an exposure after \<open>sc\<close>, since the defect is found in
  the first iteration of the loop; when \<open>sc\<close> is the last exposure the loop does not run and
  the call returns without logging. An index outside the list raises \<open>IndexError\<close>.
\<close>

theorem UpdateMasters_readnoise:
  "UpdateMasters sciexp sc det ''readnoise'' chktype =
     (if sc < length sciexp
      then Inr (if sc + 1 < length sciexp then [Bug (bug_type ''readnoise'')] else [], sciexp)
      else Inl IndexError)"
proof (cases "sc + 1 < length sciexp")
  case True
  then have "[sc + 1 ..< length sciexp] = (sc + 1) # [sc + 2 ..< length sciexp]"
    by (simp add: upt_conv_Cons)
  with True show ?thesis
    by (simp add: UpdateMasters_def sciexp_at_def UpdateMasters_loops_def plain_chkfarr_def)
next
  case False
  then show ?thesis
    by (simp add: UpdateMasters_def sciexp_at_def UpdateMasters_loops_def)
qed

text \<open>
  C10 as stated fails for the last exposure: nothing is logged.
\<close>

theorem readnoise_last_exposure_counterexample:
  "UpdateMasters [exposure [0] [1] [2] [3] [4] [4] [5]] 0 1 ''readnoise'' ''''
     = Inr ([], [exposure [0] [1] [2] [3] [4] [4] [5]])"
  by (simp add: UpdateMasters_def sciexp_at_def UpdateMasters_loops_def)

section \<open>Properties of the boxcar pass\<close>







lemma sub2_nth: "r < length a \<Longrightarrow> r < length b \<Longrightarrow> sub2 a b ! r = map2 fsub (a ! r) (b ! r)"
  by (simp add: sub2_def)


lemma length_row_sums_mul2: "length (row_sums (mul2 a b)) = min (length a) (length b)"
  by (simp add: row_sums_def mul2_def)








text \<open>
  The definitions a concrete call of \<open>boxcar\<close> is evaluated with.
\<close>

lemmas bx_eval = boxcar_def boxcar_obj_def ebind_def py_nth_def dict_get_def mask_flags_def
  mul2_def sub2_def add2_def row_sums_def sum_row_def add_where_def zero_where_def
  put_where_pos_def linspace01_def fsub_def check_trace_def fit_const_def Let_def inf_of_def




text \<open>
  C3 on one aperture pixel of weight 1. With no cosmic ray on the pixel (\<open>crmask = 0\<close>)
  the mask of the row is 2, the CR flag; with the pixel flagged (\<open>crmask = 1\<close>) the mask is
  0. The sum of line 86 runs over \<open>cr_mask = 1.0 - crmask\<close>, the pixels that are \<^emph>\<open>not\<close>
  flagged, where the bad-pixel sum of line 82 runs over the flagged ones.
\<close>

theorem boxcar_CR_flag_inverted:
  "boxcar (fit_const [[Fin 1]]) \<lparr>mswave = [[[Fin 5000]]], bpix = [[[Fin 0]]]\<rparr> 1
      [\<lparr>so_trace = [Fin 0], so_boxcar = None\<rparr>]
      [[Fin 10]] [[Fin 4]] [[Fin 2]] [[0]]
      \<lparr>st_traces = [[Fin 0]], st_object = [[[Fin 1]]], st_background = [[[Fin 0]]]\<rparr>
     = Inr ([\<lparr>so_trace = [Fin 0],
              so_boxcar = Some \<lparr>bx_wave = [Fin 5000], bx_counts = [Fin 9], bx_var = [Fin 4],
                                  bx_sky = [Fin 2], bx_mask = [2]\<rparr>\<rparr>], [[Fin 1]])
   \<and> boxcar (fit_const [[Fin 1]]) \<lparr>mswave = [[[Fin 5000]]], bpix = [[[Fin 0]]]\<rparr> 1
      [\<lparr>so_trace = [Fin 0], so_boxcar = None\<rparr>]
      [[Fin 10]] [[Fin 4]] [[Fin 2]] [[1]]
      \<lparr>st_traces = [[Fin 0]], st_object = [[[Fin 1]]], st_background = [[[Fin 0]]]\<rparr>
     = Inr ([\<lparr>so_trace = [Fin 0],
              so_boxcar = Some \<lparr>bx_wave = [Fin 5000], bx_counts = [Fin 9], bx_var = [Fin 4],
                                  bx_sky = [Fin 2], bx_mask = [0]\<rparr>\<rparr>], [[Fin 1]])"
  by (simp add: bx_eval)

section \<open>Properties of SetupScience\<close>

text \<open>
  C8. When restricting to setups is asked for (\<open>reduce setup\<close> is not \<open>None\<close>) and no
  setup file exists, \<open>SetupScience\<close> ends in the fatal error of \<open>msgs.error\<close>, with no
  science exposure constructed and nothing written.
\<close>

theorem SetupScience_no_setup_file:
  assumes "reduce_setup env \<noteq> None" and "nexist env = 0"
  shows "\<exists>m st. SetupScience env = Inl (Fatal m, st) \<and> ss_sciexp st = [] \<and> ss_io st = []"
  using assms by (simp add: SetupScience_def)

text \<open>
  The theorem for a run restricted to setup 01 with no setup file.
\<close>

theorem SetupScience_no_setup_file_witness:
  "\<exists>m st. SetupScience (two_sci_env\<lparr>reduce_setup := Some [''01'']\<rparr>) = Inl (Fatal m, st)
          \<and> ss_sciexp st = [] \<and> ss_io st = []"
  by (rule SetupScience_no_setup_file) (simp_all add: two_sci_env_def)

subsection \<open>The group record\<close>


lemma set_add_new: "set (add_new acc xs) = set acc \<union> set xs"
  by (induction xs arbitrary: acc) auto

lemma distinct_add_new: "distinct acc \<Longrightarrow> distinct (add_new acc xs)"
  by (induction xs arbitrary: acc) auto

lemma add_new_extends: "\<exists>more. add_new acc xs = acc @ more"
proof (induction xs arbitrary: acc)
  case Nil
  show ?case by simp
next
  case (Cons x xs)
  from Cons.IH [of "if x \<in> set acc then acc else acc @ [x]"]
  obtain more where "add_new (if x \<in> set acc then acc else acc @ [x]) xs
                       = (if x \<in> set acc then acc else acc @ [x]) @ more"
    by blast
  then show ?case by (cases "x \<in> set acc") simp_all
qed

lemma length_new_std:
  "length files + length (new_std env files idxs)
     = length (add_new files (map (\<lambda>i. fits_filename env ! i) idxs))"
proof (induction idxs arbitrary: files)
  case Nil
  show ?case by simp
next
  case (Cons idx rest)
  show ?case
    using Cons.IH [of files] Cons.IH [of "files @ [fits_filename env ! idx]"]
    by simp
qed













end
